theory Spec2Isabelle
  imports Complex_Main
begin

section \<open>SpotiSwipe: the interaction state machine of the client\<close>

text \<open>
  The client is a React application. Its top-level component \<open>App\<close> (App.jsx) owns the
  step, the session id, the song queue, the cursor and the recommendation list; the
  component \<open>SongCard\<close> (SongCard.jsx) owns the drag gesture, the commit animation and the
  card media; the component \<open>Recommendations\<close> (Recommendations.jsx) owns one audio element
  per result row.

  Component state (\<open>useState\<close>) is a record, a handler is a function from the state to the
  new state and the list of effects it performs (backend requests, alerts, timers). The
  outcome of an awaited backend call is an input of the handler. The handlers are
  asynchronous, and other events can come between the start of a handler and its end:
  so each handler is also cut at its awaits, into one function up to the await and one
  for the rest, which runs on the state of that later moment with the values its closure
  holds, and a run of events keeps what is under way between the two. Analytics events
  (\<open>ReactGA.event\<close>) and \<open>console.error\<close> are left out: no state depends on them.
\<close>

subsection \<open>App.jsx: data\<close>

datatype step = Registration | Genres | Swiping | Loading | Recommendations

text \<open>
  A song as the backend sends it. \<open>track_id\<close> may be missing; the code tests it for
  truthiness (\<open>!currentSong?.track_id\<close>), so a missing and an empty id are both falsy.
\<close>

record song =
  track_id :: "string option"
  track_name :: string
  artists :: string
  track_genre :: string

record user_data =
  user_name :: string
  user_email :: string

record app =
  step :: step
  userData :: "user_data option"
  sessionId :: "string option"
  songs :: "song list"
  currentSongIndex :: nat
  recommendations :: "song list"

text \<open>
  What an awaited \<open>fetch\<close> gives back: the call or the parsing of its body throws
  (\<open>Rejected\<close>, with the message of the error), the response is not ok (\<open>NotOk\<close>, with the
  \<open>error\<close> field of its body when there is one), or it is ok with a body.
\<close>

datatype 'a response = Rejected string | NotOk "string option" | Ok 'a

datatype request =
    UserLogin user_data
  | InitialSongs "string list" "string option"
  | Swipe "string option" string bool
  | GetRecommendations "string option"

datatype effect =
    Fetch request
  | Alert string
  | SetTimeout_getRecommendations nat

definition truthy :: "string option \<Rightarrow> bool" where
  "truthy v = (case v of None \<Rightarrow> False | Some s \<Rightarrow> s \<noteq> [])"

text \<open>JavaScript's \<open>e || d\<close> on an optional string.\<close>

definition or_else :: "string option \<Rightarrow> string \<Rightarrow> string" where
  "or_else e d = (case e of None \<Rightarrow> d | Some m \<Rightarrow> if m = [] then d else m)"

definition initial_app :: app where
  "initial_app = \<lparr>step = Registration, userData = None, sessionId = None, songs = [],
     currentSongIndex = 0, recommendations = []\<rparr>"

subsection \<open>App.jsx: handlers\<close>

text \<open>
  Each handler as a whole, for a call whose response arrives before any other event: the
  state and the effects after the response. The two parts of each handler follow below.
\<close>

definition handleRegistration :: "user_data \<Rightarrow> string option response \<Rightarrow> app \<Rightarrow> app \<times> effect list" where
  "handleRegistration d r a =
     (case r of
        Rejected msg \<Rightarrow> (a, [Fetch (UserLogin d), Alert msg])
      | NotOk e \<Rightarrow> (a, [Fetch (UserLogin d), Alert (or_else e ''Registration failed'')])
      | Ok sid \<Rightarrow> (a\<lparr>sessionId := sid, userData := Some d, step := Genres\<rparr>, [Fetch (UserLogin d)]))"

definition handleStart :: "string list \<Rightarrow> song list response \<Rightarrow> app \<Rightarrow> app \<times> effect list" where
  "handleStart selectedGenres r a =
     (let req = Fetch (InitialSongs selectedGenres (sessionId a)) in
      (case r of
         Rejected msg \<Rightarrow> (a, [req, Alert msg])
       | NotOk e \<Rightarrow> (a, [req, Alert (or_else e ''Failed to fetch songs'')])
       | Ok data_songs \<Rightarrow> (a\<lparr>songs := data_songs, step := Swiping\<rparr>, [req])))"

definition handleRestart :: "app \<Rightarrow> app" where
  "handleRestart a =
     a\<lparr>step := Genres, sessionId := None, songs := [], currentSongIndex := 0,
       recommendations := []\<rparr>"

definition swipe_alert :: "string \<Rightarrow> effect" where
  "swipe_alert msg = Alert (''Error recording your choice: '' @ msg)"

definition handleSwipe :: "bool \<Rightarrow> unit response \<Rightarrow> app \<Rightarrow> app \<times> effect list" where
  "handleSwipe liked r a =
     (if currentSongIndex a \<ge> length (songs a) then (a, [])
      else
        let currentSong = songs a ! currentSongIndex a in
        (case track_id currentSong of
          None \<Rightarrow> (a, [swipe_alert ''Invalid song data''])
        | Some tid \<Rightarrow>
            if tid = [] then (a, [swipe_alert ''Invalid song data''])
            else
              (let req = Fetch (Swipe (sessionId a) tid liked) in
               (case r of
                  Rejected msg \<Rightarrow> (a, [req, swipe_alert msg])
                | NotOk e \<Rightarrow> (a, [req, swipe_alert (or_else e ''Failed to record swipe'')])
                | Ok _ \<Rightarrow>
                    (let nextIndex = currentSongIndex a + 1 in
                     if nextIndex \<ge> length (songs a)
                     then (a\<lparr>currentSongIndex := nextIndex, step := Loading\<rparr>,
                           [req, SetTimeout_getRecommendations 1500])
                     else (a\<lparr>currentSongIndex := nextIndex\<rparr>, [req]))))))"

definition recommendations_failed :: "string \<Rightarrow> app \<Rightarrow> effect list \<Rightarrow> app \<times> effect list" where
  "recommendations_failed msg a sent =
     (handleRestart a, sent @ [Alert (''Failed to get recommendations: '' @ msg)])"

definition getRecommendations :: "song list option response \<Rightarrow> app \<Rightarrow> app \<times> effect list" where
  "getRecommendations r a =
     (if \<not> truthy (sessionId a) then recommendations_failed ''No active session'' a []
      else
        (let sent = [Fetch (GetRecommendations (sessionId a))] in
         (case r of
            Rejected msg \<Rightarrow> recommendations_failed msg a sent
          | NotOk e \<Rightarrow> recommendations_failed (or_else e ''Failed to get recommendations'') a sent
          | Ok data_recommendations \<Rightarrow>
              (case data_recommendations of
                 None \<Rightarrow> recommendations_failed ''Invalid recommendations data received'' a sent
               | Some [] \<Rightarrow> recommendations_failed ''Invalid recommendations data received'' a sent
               | Some (s # ss) \<Rightarrow>
                   (a\<lparr>recommendations := s # ss, step := Recommendations\<rparr>, sent)))))"

fun is_ok :: "'a response \<Rightarrow> bool" where
  "is_ok (Ok _) = True"
| "is_ok _ = False"

fun is_timeout :: "effect \<Rightarrow> bool" where
  "is_timeout (SetTimeout_getRecommendations _) = True"
| "is_timeout _ = False"

fun is_alert :: "effect \<Rightarrow> bool" where
  "is_alert (Alert _) = True"
| "is_alert _ = False"

fun is_swipe_request :: "effect \<Rightarrow> bool" where
  "is_swipe_request (Fetch (Swipe _ _ _)) = True"
| "is_swipe_request _ = False"

fun is_swipe_for :: "string \<Rightarrow> effect \<Rightarrow> bool" where
  "is_swipe_for t (Fetch (Swipe _ tid _)) = (tid = t)"
| "is_swipe_for t _ = False"

subsection \<open>App.jsx: the handlers cut at their awaits\<close>

text \<open>
  The handlers above take the response of the backend as an input: they describe a call
  whose response arrives before anything else happens. The handlers are \<open>async\<close>, and
  nothing waits for them (\<open>animateSwipe\<close> calls \<open>onSwipe(isLike)\<close> without \<open>await\<close>), so other
  events can come between the call and the response. Each handler is therefore cut at
  its await: the part up to the await runs on the state of the render the handler
  belongs to, the part after the await runs when the response arrives, on the state of
  that moment, and uses the values its closure holds.

  \<open>handleSwipe\<close> keeps in its closure \<open>currentSongIndex\<close> and \<open>songs\<close> of its render: after the
  await it writes \<open>currentSongIndex + 1\<close> of the closure and compares it with \<open>songs.length\<close>
  of the closure. The timer it sets calls \<open>getRecommendations\<close> of the same render, which
  tests the \<open>sessionId\<close> of that render.
\<close>

record swipe_call =
  call_index :: nat
  call_length :: nat
  call_sessionId :: "string option"

definition handleSwipe_call :: "bool \<Rightarrow> app \<Rightarrow> swipe_call option \<times> effect list" where
  "handleSwipe_call liked a =
     (if currentSongIndex a \<ge> length (songs a) then (None, [])
      else
        let currentSong = songs a ! currentSongIndex a in
        (case track_id currentSong of
          None \<Rightarrow> (None, [swipe_alert ''Invalid song data''])
        | Some tid \<Rightarrow>
            if tid = [] then (None, [swipe_alert ''Invalid song data''])
            else (Some \<lparr>call_index = currentSongIndex a, call_length = length (songs a),
                         call_sessionId = sessionId a\<rparr>,
                  [Fetch (Swipe (sessionId a) tid liked)])))"

definition handleSwipe_resume :: "swipe_call \<Rightarrow> unit response \<Rightarrow> app \<Rightarrow> app \<times> effect list" where
  "handleSwipe_resume c r a =
     (case r of
        Rejected msg \<Rightarrow> (a, [swipe_alert msg])
      | NotOk e \<Rightarrow> (a, [swipe_alert (or_else e ''Failed to record swipe'')])
      | Ok _ \<Rightarrow>
          (let nextIndex = call_index c + 1 in
           if nextIndex \<ge> call_length c
           then (a\<lparr>currentSongIndex := nextIndex, step := Loading\<rparr>,
                 [SetTimeout_getRecommendations 1500])
           else (a\<lparr>currentSongIndex := nextIndex\<rparr>, [])))"

definition handleRegistration_resume ::
    "user_data \<Rightarrow> string option response \<Rightarrow> app \<Rightarrow> app \<times> effect list" where
  "handleRegistration_resume d r a =
     (case r of
        Rejected msg \<Rightarrow> (a, [Alert msg])
      | NotOk e \<Rightarrow> (a, [Alert (or_else e ''Registration failed'')])
      | Ok sid \<Rightarrow> (a\<lparr>sessionId := sid, userData := Some d, step := Genres\<rparr>, []))"

definition handleStart_resume :: "song list response \<Rightarrow> app \<Rightarrow> app \<times> effect list" where
  "handleStart_resume r a =
     (case r of
        Rejected msg \<Rightarrow> (a, [Alert msg])
      | NotOk e \<Rightarrow> (a, [Alert (or_else e ''Failed to fetch songs'')])
      | Ok data_songs \<Rightarrow> (a\<lparr>songs := data_songs, step := Swiping\<rparr>, []))"

text \<open>
  \<open>getRecommendations\<close> with the session id of its closure: the flag tells whether the
  request was sent, that is, whether a response is to come.
\<close>

definition getRecommendations_call :: "string option \<Rightarrow> app \<Rightarrow> (app \<times> bool) \<times> effect list" where
  "getRecommendations_call sid a =
     (if \<not> truthy sid
      then ((fst (recommendations_failed ''No active session'' a []), False),
            snd (recommendations_failed ''No active session'' a []))
      else ((a, True), [Fetch (GetRecommendations sid)]))"

definition getRecommendations_resume :: "song list option response \<Rightarrow> app \<Rightarrow> app \<times> effect list" where
  "getRecommendations_resume r a =
     (case r of
        Rejected msg \<Rightarrow> recommendations_failed msg a []
      | NotOk e \<Rightarrow> recommendations_failed (or_else e ''Failed to get recommendations'') a []
      | Ok data_recommendations \<Rightarrow>
          (case data_recommendations of
             None \<Rightarrow> recommendations_failed ''Invalid recommendations data received'' a []
           | Some [] \<Rightarrow> recommendations_failed ''Invalid recommendations data received'' a []
           | Some (s # ss) \<Rightarrow> (a\<lparr>recommendations := s # ss, step := Recommendations\<rparr>, [])))"

subsection \<open>App.jsx: runs of events\<close>

text \<open>
  What is under way: a request whose response has not arrived, with what the closure of
  its handler holds, or the timer set by \<open>handleSwipe\<close>.
\<close>

datatype pending =
    RegistrationPending user_data
  | StartPending
  | SwipePending swipe_call
  | TimerPending "string option"
  | RecommendationsPending

fun is_swipe_pending :: "pending \<Rightarrow> bool" where
  "is_swipe_pending (SwipePending _) = True"
| "is_swipe_pending _ = False"

text \<open>
  The events: the user submits the registration form, submits genres, commits a swipe
  (\<open>handleSwipe\<close> of the render of this moment is the one that will run), presses Start Over; the response to the \<open>k\<close>-th thing under way arrives, or the \<open>k\<close>-th
  thing under way is a timer and fires. A response event whose \<open>k\<close> does not name a request
  of its kind changes nothing. The registration form is rendered in the registration
  step only (App.jsx, \<open>step === 'registration' && <LoginForm .../>\<close>). The other events are
  not restricted to the step that renders their component: the properties below hold
  for every run, and the concrete runs below fire an event only where its component is
  on the screen.
\<close>

datatype sys_event =
    SubmitLogin user_data
  | SubmitGenres "string list"
  | Commit bool
  | StartOver
  | RegistrationResponse nat "string option response"
  | StartResponse nat "song list response"
  | SwipeResponse nat "unit response"
  | TimerFires nat
  | RecommendationsResponse nat "song list option response"

definition pending_at :: "nat \<Rightarrow> pending list \<Rightarrow> pending option" where
  "pending_at k p = (if k < length p then Some (p ! k) else None)"

definition settle :: "nat \<Rightarrow> pending list \<Rightarrow> pending list" where
  "settle k p = take k p @ drop (Suc k) p"

fun sys_step :: "sys_event \<Rightarrow> app \<times> pending list \<Rightarrow> (app \<times> pending list) \<times> effect list" where
  "sys_step (SubmitLogin d) (a, p) =
     (if step a = Registration
      then ((a, p @ [RegistrationPending d]), [Fetch (UserLogin d)])
      else ((a, p), []))"
| "sys_step (SubmitGenres g) (a, p) =
     ((a, p @ [StartPending]), [Fetch (InitialSongs g (sessionId a))])"
| "sys_step (Commit liked) (a, p) =
     (case handleSwipe_call liked a of
        (None, out) \<Rightarrow> ((a, p), out)
      | (Some c, out) \<Rightarrow> ((a, p @ [SwipePending c]), out))"
| "sys_step StartOver (a, p) = ((handleRestart a, p), [])"
| "sys_step (RegistrationResponse k r) (a, p) =
     (case pending_at k p of
        Some (RegistrationPending d) \<Rightarrow>
          ((fst (handleRegistration_resume d r a), settle k p),
           snd (handleRegistration_resume d r a))
      | _ \<Rightarrow> ((a, p), []))"
| "sys_step (StartResponse k r) (a, p) =
     (case pending_at k p of
        Some StartPending \<Rightarrow>
          ((fst (handleStart_resume r a), settle k p), snd (handleStart_resume r a))
      | _ \<Rightarrow> ((a, p), []))"
| "sys_step (SwipeResponse k r) (a, p) =
     (case pending_at k p of
        Some (SwipePending c) \<Rightarrow>
          ((fst (handleSwipe_resume c r a),
            settle k p @ (if list_ex is_timeout (snd (handleSwipe_resume c r a))
                          then [TimerPending (call_sessionId c)] else [])),
           snd (handleSwipe_resume c r a))
      | _ \<Rightarrow> ((a, p), []))"
| "sys_step (TimerFires k) (a, p) =
     (case pending_at k p of
        Some (TimerPending sid) \<Rightarrow>
          ((fst (fst (getRecommendations_call sid a)),
            settle k p @ (if snd (fst (getRecommendations_call sid a))
                          then [RecommendationsPending] else [])),
           snd (getRecommendations_call sid a))
      | _ \<Rightarrow> ((a, p), []))"
| "sys_step (RecommendationsResponse k r) (a, p) =
     (case pending_at k p of
        Some RecommendationsPending \<Rightarrow>
          ((fst (getRecommendations_resume r a), settle k p),
           snd (getRecommendations_resume r a))
      | _ \<Rightarrow> ((a, p), []))"

fun sys_run :: "sys_event list \<Rightarrow> app \<times> pending list \<Rightarrow> (app \<times> pending list) \<times> effect list" where
  "sys_run [] s = (s, [])"
| "sys_run (e # es) s =
     (let (s1, out1) = sys_step e s;
          (s2, out2) = sys_run es s1
      in (s2, out1 @ out2))"

text \<open>
  The swiping phase: runs of swipe commits and swipe responses. \<open>advances e s\<close> says that
  the event, if it is a successful swipe response, belongs to a call made at the cursor
  of now, so that it moves the cursor forward by one; \<open>advancing\<close> says so of every event
  of a run; \<open>committed\<close> counts the successful swipe responses of a run.
\<close>

fun is_swipe_event :: "sys_event \<Rightarrow> bool" where
  "is_swipe_event (Commit _) = True"
| "is_swipe_event (SwipeResponse _ _) = True"
| "is_swipe_event _ = False"

fun commits :: "sys_event \<Rightarrow> app \<times> pending list \<Rightarrow> bool" where
  "commits (SwipeResponse k r) (a, p) =
     (is_ok r \<and> (case pending_at k p of Some (SwipePending c) \<Rightarrow> True | _ \<Rightarrow> False))"
| "commits _ s = False"

fun advances :: "sys_event \<Rightarrow> app \<times> pending list \<Rightarrow> bool" where
  "advances (SwipeResponse k r) (a, p) =
     (case pending_at k p of
        Some (SwipePending c) \<Rightarrow> is_ok r \<longrightarrow> call_index c = currentSongIndex a
      | _ \<Rightarrow> True)"
| "advances _ s = True"

fun advancing :: "sys_event list \<Rightarrow> app \<times> pending list \<Rightarrow> bool" where
  "advancing [] s = True"
| "advancing (e # es) s = (advances e s \<and> advancing es (fst (sys_step e s)))"

fun committed :: "sys_event list \<Rightarrow> app \<times> pending list \<Rightarrow> nat" where
  "committed [] s = 0"
| "committed (e # es) s = (if commits e s then 1 else 0) + committed es (fst (sys_step e s))"

text \<open>
  The registration and genre phase. \<open>at_rest\<close>: the step is registration or genre
  selection, the cursor is 0, the queue is empty and no swipe response is under way;
  the initial state is so, and so is the state after a restart when no swipe response is
  under way. \<open>in_genre_phase\<close>: every event of the run ends in the registration or the genre
  selection step.
\<close>

definition at_rest :: "app \<times> pending list \<Rightarrow> bool" where
  "at_rest s =
     ((step (fst s) = Registration \<or> step (fst s) = Genres) \<and> currentSongIndex (fst s) = 0
      \<and> songs (fst s) = [] \<and> \<not> list_ex is_swipe_pending (snd s))"

fun in_genre_phase :: "sys_event list \<Rightarrow> app \<times> pending list \<Rightarrow> bool" where
  "in_genre_phase [] s = True"
| "in_genre_phase (e # es) s =
     ((step (fst (fst (sys_step e s))) = Registration \<or> step (fst (fst (sys_step e s))) = Genres)
      \<and> in_genre_phase es (fst (sys_step e s)))"

text \<open>
  After a restart: no session id, the step neither registration nor recommendations, no
  registration or recommendations response under way, and no timer or swipe call whose
  closure holds a session id.
\<close>

fun without_session :: "pending \<Rightarrow> bool" where
  "without_session (RegistrationPending _) = False"
| "without_session StartPending = True"
| "without_session (SwipePending c) = (\<not> truthy (call_sessionId c))"
| "without_session (TimerPending sid) = (\<not> truthy sid)"
| "without_session RecommendationsPending = False"

definition stranded :: "app \<times> pending list \<Rightarrow> bool" where
  "stranded s =
     (sessionId (fst s) = None \<and> step (fst s) \<noteq> Registration \<and> step (fst s) \<noteq> Recommendations
      \<and> list_all without_session (snd s))"

subsection \<open>SongCard.jsx: data\<close>

datatype direction = Like | Dislike

text \<open>The pose the animation controls hold: \<open>x\<close>, \<open>rotate\<close> and \<open>opacity\<close>.\<close>

record pose =
  pose_x :: real
  pose_rotate :: real
  pose_opacity :: real

definition neutral :: pose where
  "neutral = \<lparr>pose_x = 0, pose_rotate = 0, pose_opacity = 1\<rparr>"

text \<open>
  The state of one \<open>SongCard\<close>: the \<open>song\<close> prop and the \<open>useState\<close> cells the gesture, the
  commit animation and the card media use. The cells of the audio player of the card
  (\<open>isPlaying\<close>, \<open>isMuted\<close>, \<open>progress\<close>, \<open>isLoading\<close>) take no part in them and are left out.
\<close>

record card =
  card_song :: "song option"
  isDragging :: bool
  isAnimating :: bool
  isSwipeLoading :: bool
  imageLoaded :: bool
  albumImage :: "string option"
  previewUrl :: "string option"
  controls :: pose

datatype card_effect =
    OnSwipe bool
  | StartCommitAnimation direction
  | ShowOverlay direction
  | HideOverlay direction
  | FadeOutAudio
  | PauseAudio
  | FetchSongDetail string

text \<open>
  The component returns \<open>null\<close> when it has no song and renders the card element (the
  target of \<open>cardRef\<close>) otherwise; the audio element (the target of \<open>audioRef\<close>) is rendered
  when \<open>previewUrl\<close> is truthy.
\<close>

definition cardRef_current :: "card \<Rightarrow> bool" where
  "cardRef_current c = (card_song c \<noteq> None)"

definition audioRef_current :: "card \<Rightarrow> bool" where
  "audioRef_current c = (cardRef_current c \<and> truthy (previewUrl c))"

text \<open>JavaScript's \<open>song?.track_id\<close>.\<close>

definition song_track_id :: "song option \<Rightarrow> string option" where
  "song_track_id s = (case s of None \<Rightarrow> None | Some t \<Rightarrow> track_id t)"

subsection \<open>SongCard.jsx: the commit animation and its triggers\<close>

text \<open>
  \<open>animateSwipe\<close> runs up to its \<open>await controls.start(...)\<close>; \<open>animateSwipe_resume\<close> is the
  rest of it, run when the animation has finished (\<open>True\<close>) or thrown (\<open>False\<close>). The
  animation ends at \<open>x = \<plusminus>1000\<close>, \<open>opacity = 0\<close>; then \<open>onSwipe\<close> is called and the pose is set
  back to neutral, and \<open>isAnimating\<close> is cleared in the \<open>finally\<close> block.
\<close>

definition animateSwipe :: "direction \<Rightarrow> card \<Rightarrow> card \<times> card_effect list" where
  "animateSwipe d c =
     (if isAnimating c \<or> \<not> cardRef_current c then (c, [])
      else (c\<lparr>isAnimating := True, isSwipeLoading := True\<rparr>,
            (if audioRef_current c then [FadeOutAudio] else [])
              @ [ShowOverlay d, StartCommitAnimation d]))"

definition animateSwipe_resume :: "direction \<Rightarrow> bool \<Rightarrow> card \<Rightarrow> card \<times> card_effect list" where
  "animateSwipe_resume d finished c =
     (if finished
      then (c\<lparr>controls := neutral, isAnimating := False\<rparr>, [OnSwipe (d = Like), HideOverlay d])
      else (c\<lparr>controls := neutral, isAnimating := False\<rparr>, []))"

definition handleKeyDown :: "string \<Rightarrow> card \<Rightarrow> card \<times> card_effect list" where
  "handleKeyDown key c =
     (if isDragging c \<or> isAnimating c \<or> card_song c = None then (c, [])
      else if key = ''ArrowLeft'' then animateSwipe Dislike c
      else if key = ''ArrowRight'' then animateSwipe Like c
      else (c, []))"

text \<open>The like and dislike buttons: \<open>onClick={() => !isAnimating && animateSwipe(...)}\<close>.\<close>

definition button_onClick :: "direction \<Rightarrow> card \<Rightarrow> card \<times> card_effect list" where
  "button_onClick d c = (if \<not> isAnimating c then animateSwipe d c else (c, []))"

definition onDragStart :: "card \<Rightarrow> card" where
  "onDragStart c = c\<lparr>isDragging := True\<rparr>"

text \<open>
  \<open>onDragEnd\<close> with the horizontal offset of the release, a finite number of pixels: the
  source only takes its absolute value and compares it with 100 and with 0, which is
  exact on such numbers. \<open>controls.start({x: 0, rotate: 0})\<close> is the spring back: the pose
  it settles in has \<open>x\<close> and \<open>rotate\<close> at 0.
\<close>

definition onDragEnd :: "real \<Rightarrow> card \<Rightarrow> card \<times> card_effect list" where
  "onDragEnd offset_x c =
     (if isAnimating c then (c, [])
      else
        (let c1 = c\<lparr>isDragging := False\<rparr>;
             swipe = \<bar>offset_x\<bar>
         in if swipe > 100
            then animateSwipe (if offset_x > 0 then Like else Dislike) c1
            else (c1\<lparr>controls := (controls c1)\<lparr>pose_x := 0, pose_rotate := 0\<rparr>\<rparr>, [])))"

datatype trigger = DragRelease real | ButtonPress direction | KeyPress string

fun fire :: "trigger \<Rightarrow> card \<Rightarrow> card \<times> card_effect list" where
  "fire (DragRelease offset_x) c = onDragEnd offset_x c"
| "fire (ButtonPress d) c = button_onClick d c"
| "fire (KeyPress key) c = handleKeyDown key c"

fun fire_all :: "trigger list \<Rightarrow> card \<Rightarrow> card \<times> card_effect list" where
  "fire_all [] c = (c, [])"
| "fire_all (t # ts) c =
     (let (c1, out1) = fire t c;
          (c2, out2) = fire_all ts c1
      in (c2, out1 @ out2))"

fun is_onSwipe :: "card_effect \<Rightarrow> bool" where
  "is_onSwipe (OnSwipe _) = True"
| "is_onSwipe _ = False"

subsection \<open>SongCard.jsx: the card media\<close>

text \<open>
  A new \<open>song\<close> prop runs the effects that depend on it, in the order of the source: the
  reset (lines 55 to 65), the detail fetch when \<open>song?.track_id\<close> has changed (lines 67 to
  94, up to the \<open>await fetch\<close>), and the end of the swipe spinner (lines 216 to 220).
  \<open>previewUrl\<close> is not reset. The effects run after the render, so \<open>audioRef\<close> is the audio
  element of the new render: there is none when the new song is missing.
\<close>

definition fetchSongDetails :: "card \<Rightarrow> card \<times> card_effect list" where
  "fetchSongDetails c =
     (case song_track_id (card_song c) of
        None \<Rightarrow> (c, [])
      | Some tid \<Rightarrow>
          if tid = [] then (c, []) else (c\<lparr>imageLoaded := False\<rparr>, [FetchSongDetail tid]))"

definition set_song :: "song option \<Rightarrow> card \<Rightarrow> card \<times> card_effect list" where
  "set_song s c =
     (let c1 = c\<lparr>card_song := s, imageLoaded := False, albumImage := None, controls := neutral\<rparr>;
          out1 = (if audioRef_current c1 then [PauseAudio] else []);
          (c2, out2) = (if song_track_id s \<noteq> song_track_id (card_song c)
                        then fetchSongDetails c1 else (c1, []));
          c3 = (if s \<noteq> None then c2\<lparr>isSwipeLoading := False\<rparr> else c2)
      in (c3, out1 @ out2))"

text \<open>The first render of a card, with the state the \<open>useState\<close> calls start from.\<close>

definition mount :: "song option \<Rightarrow> card \<times> card_effect list" where
  "mount s =
     (let c0 = \<lparr>card_song = s, isDragging = False, isAnimating = False, isSwipeLoading = False,
                 imageLoaded = False, albumImage = None, previewUrl = None, controls = neutral\<rparr>;
          (c1, out1) = fetchSongDetails c0
      in (c1, out1))"

text \<open>
  The body of a detail response: \<open>image\<close> (here \<open>image_url\<close>) and \<open>preview_url\<close>, either of which
  may be absent.
\<close>

record song_detail =
  image_url :: "string option"
  preview_url :: "string option"

text \<open>
  The rest of \<open>fetchSongDetails\<close>, run when the response to the request for track
  \<open>requested\<close> arrives. The source does not look at the song of the card here, so
  \<open>requested\<close> is not used.
\<close>

definition fetchSongDetails_resume :: "string \<Rightarrow> song_detail response \<Rightarrow> card \<Rightarrow> card" where
  "fetchSongDetails_resume requested r c =
     (case r of
        Ok data \<Rightarrow> c\<lparr>albumImage := image_url data, previewUrl := preview_url data, imageLoaded := True\<rparr>
      | Rejected msg \<Rightarrow> c\<lparr>albumImage := None, previewUrl := None, imageLoaded := True\<rparr>
      | NotOk e \<Rightarrow> c\<lparr>albumImage := None, previewUrl := None, imageLoaded := True\<rparr>)"

subsection \<open>App.jsx and SongCard.jsx together: the swiping step\<close>

text \<open>
  In the swiping step \<open>App\<close> renders one \<open>SongCard\<close> with \<open>song={songs[currentSongIndex]}\<close>
  and \<open>onSwipe={handleSwipe}\<close> (App.jsx, lines 275 to 288), and nothing when the cursor is
  outside the queue.
\<close>

definition swiping_song :: "app \<Rightarrow> song option" where
  "swiping_song a =
     (if step a = Swiping \<and> currentSongIndex a < length (songs a)
      then Some (songs a ! currentSongIndex a) else None)"

text \<open>
  The calls of \<open>onSwipe\<close> among the effects of the card reach \<open>handleSwipe\<close>, which runs up
  to its await on the state of \<open>App\<close> at the end of the animation. In the source it is the
  \<open>handleSwipe\<close> of the render in which the trigger was handled; the two states are the
  same unless a swipe response arrives during the animation.
\<close>

fun deliver :: "card_effect list \<Rightarrow> app \<Rightarrow> swipe_call option \<times> effect list" where
  "deliver [] a = (None, [])"
| "deliver (OnSwipe liked # out) a = handleSwipe_call liked a"
| "deliver (_ # out) a = deliver out a"

text \<open>After a move of the cursor the card gets the next song as its prop.\<close>

definition rerender :: "app \<Rightarrow> app \<Rightarrow> card \<Rightarrow> card" where
  "rerender a a1 c =
     (if currentSongIndex a1 \<noteq> currentSongIndex a \<and> swiping_song a1 \<noteq> None
      then fst (set_song (swiping_song a1) c) else c)"

text \<open>
  The events of the swiping step, on the state of \<open>App\<close>, the state of the card and the
  swipe calls whose response has not arrived. The end of a commit animation is an event
  only while an animation is in progress; it clears \<open>isAnimating\<close> and leaves the swipe call
  under way. The response to the \<open>k\<close>-th call under way arrives as an event of its own.
\<close>

datatype ui_event =
    Trigger trigger
  | DragStarted
  | AnimationFinished direction
  | AnimationThrew direction
  | SwipeResponded nat "unit response"
  | DetailArrived string "song_detail response"

fun ui_step ::
    "ui_event \<Rightarrow> app \<times> card \<times> swipe_call list \<Rightarrow> (app \<times> card \<times> swipe_call list) \<times> effect list" where
  "ui_step (Trigger t) (a, c, p) = ((a, fst (fire t c), p), [])"
| "ui_step DragStarted (a, c, p) = ((a, onDragStart c, p), [])"
| "ui_step (AnimationFinished d) (a, c, p) =
     (if isAnimating c
      then (let (c1, out) = animateSwipe_resume d True c in
            (case deliver out a of
               (None, sent) \<Rightarrow> ((a, c1, p), sent)
             | (Some call, sent) \<Rightarrow> ((a, c1, p @ [call]), sent)))
      else ((a, c, p), []))"
| "ui_step (AnimationThrew d) (a, c, p) =
     (if isAnimating c then ((a, fst (animateSwipe_resume d False c), p), []) else ((a, c, p), []))"
| "ui_step (SwipeResponded k r) (a, c, p) =
     (if k < length p
      then (let (a1, sent) = handleSwipe_resume (p ! k) r a in
            ((a1, rerender a a1 c, take k p @ drop (Suc k) p), sent))
      else ((a, c, p), []))"
| "ui_step (DetailArrived tid r) (a, c, p) = ((a, fetchSongDetails_resume tid r c, p), [])"

fun ui_run ::
    "ui_event list \<Rightarrow> app \<times> card \<times> swipe_call list \<Rightarrow> (app \<times> card \<times> swipe_call list) \<times> effect list" where
  "ui_run [] u = (u, [])"
| "ui_run (e # es) u =
     (let (u1, sent1) = ui_step e u;
          (u2, sent2) = ui_run es u1
      in (u2, sent1 @ sent2))"

subsection \<open>Recommendations.jsx: the rows and their audio elements\<close>

text \<open>
  One \<open>SongItem\<close>: its \<open>useState\<close> cells, its audio element, and the value of \<open>isPlaying\<close> at
  the last run of the effect that depends on it. Of the audio element the record holds
  the source and whether it is playing: \<open>play()\<close> has been called on it and it has not
  been paused, has not ended and its \<open>play()\<close> has not been rejected since. The rows are
  keyed by \<open>song.track_id\<close>, and \<open>isPlaying\<close> of a row is \<open>currentlyPlaying === song.track_id\<close>.
\<close>

record song_item =
  item_id :: string
  item_previewUrl :: "string option"
  showAlert :: bool
  audio_src :: "string option"
  audio_playing :: bool
  effect_isPlaying :: bool

record player =
  currentlyPlaying :: "string option"
  items :: "song_item list"

definition item_isPlaying :: "string option \<Rightarrow> song_item \<Rightarrow> bool" where
  "item_isPlaying cp it = (cp = Some (item_id it))"

definition audio_pause :: "song_item \<Rightarrow> song_item" where
  "audio_pause it = it\<lparr>audio_playing := False\<rparr>"

definition audio_play :: "song_item \<Rightarrow> song_item" where
  "audio_play it = it\<lparr>audio_playing := True\<rparr>"

definition update_item :: "nat \<Rightarrow> (song_item \<Rightarrow> song_item) \<Rightarrow> player \<Rightarrow> player" where
  "update_item i f v =
     (if i < length (items v) then v\<lparr>items := (items v)[i := f (items v ! i)]\<rparr> else v)"

text \<open>\<open>stopCurrentAudio\<close> pauses every audio element of the document.\<close>

definition stopCurrentAudio :: "player \<Rightarrow> player" where
  "stopCurrentAudio v = v\<lparr>currentlyPlaying := None, items := map audio_pause (items v)\<rparr>"

text \<open>
  The render after a state update runs, in each row whose \<open>isPlaying\<close> has changed, the
  effect \<open>if (!isPlaying && audioRef.current) audioRef.current.pause()\<close>.
\<close>

definition run_effect :: "string option \<Rightarrow> song_item \<Rightarrow> song_item" where
  "run_effect cp it =
     (let now = item_isPlaying cp it in
      if now = effect_isPlaying it then it
      else (if \<not> now then audio_pause it else it)\<lparr>effect_isPlaying := now\<rparr>)"

definition run_effects :: "player \<Rightarrow> player" where
  "run_effects v = v\<lparr>items := map (run_effect (currentlyPlaying v)) (items v)\<rparr>"

text \<open>
  \<open>togglePlay\<close> of row \<open>i\<close> in three parts, cut at its awaits: up to the first await; from
  the detail response to \<open>await audioRef.current.play()\<close>; and after that await, where the
  flag says whether playback has started. \<open>after_fetch\<close> tells the two \<open>catch\<close> blocks apart.
\<close>

definition togglePlay :: "nat \<Rightarrow> player \<Rightarrow> player" where
  "togglePlay i v =
     (if i \<ge> length (items v) then v
      else
        (let it = items v ! i in
         if item_isPlaying (currentlyPlaying v) it
         then (update_item i audio_pause v)\<lparr>currentlyPlaying := None\<rparr>
         else if \<not> truthy (item_previewUrl it) then stopCurrentAudio v
         else update_item i audio_play (stopCurrentAudio v)))"

definition togglePlay_fetched :: "nat \<Rightarrow> song_detail response \<Rightarrow> player \<Rightarrow> player" where
  "togglePlay_fetched i r v =
     (case r of
        Rejected msg \<Rightarrow> update_item i (\<lambda>it. it\<lparr>showAlert := True\<rparr>) v
      | NotOk e \<Rightarrow> update_item i (\<lambda>it. it\<lparr>showAlert := True\<rparr>) v
      | Ok data \<Rightarrow>
          if \<not> truthy (preview_url data) then update_item i (\<lambda>it. it\<lparr>showAlert := True\<rparr>) v
          else update_item i
                 (\<lambda>it. audio_play (it\<lparr>item_previewUrl := preview_url data,
                                       audio_src := preview_url data\<rparr>)) v)"

definition togglePlay_played :: "nat \<Rightarrow> bool \<Rightarrow> bool \<Rightarrow> player \<Rightarrow> player" where
  "togglePlay_played i after_fetch started v =
     (if i \<ge> length (items v) then v
      else if started then v\<lparr>currentlyPlaying := Some (item_id (items v ! i))\<rparr>
      else update_item i (\<lambda>it. (audio_pause it)\<lparr>showAlert := (after_fetch \<or> showAlert it)\<rparr>) v)"

text \<open>The \<open>ended\<close> event of the audio element of row \<open>i\<close>, and its listener \<open>handleEnded\<close>.\<close>

definition handleEnded :: "nat \<Rightarrow> player \<Rightarrow> player" where
  "handleEnded i v = (update_item i audio_pause v)\<lparr>currentlyPlaying := None\<rparr>"

datatype player_event =
    Click nat
  | DetailFetched nat "song_detail response"
  | PlaySettled nat bool bool
  | Ended nat

fun player_step :: "player_event \<Rightarrow> player \<Rightarrow> player" where
  "player_step (Click i) v = run_effects (togglePlay i v)"
| "player_step (DetailFetched i r) v = run_effects (togglePlay_fetched i r v)"
| "player_step (PlaySettled i after_fetch started) v = run_effects (togglePlay_played i after_fetch started v)"
| "player_step (Ended i) v = run_effects (handleEnded i v)"

fun player_run :: "player_event list \<Rightarrow> player \<Rightarrow> player" where
  "player_run [] v = v"
| "player_run (e # es) v = player_run es (player_step e v)"

definition new_item :: "string \<Rightarrow> song_item" where
  "new_item t = \<lparr>item_id = t, item_previewUrl = None, showAlert = False, audio_src = None,
     audio_playing = False, effect_isPlaying = False\<rparr>"

definition initial_player :: "string list \<Rightarrow> player" where
  "initial_player ids = \<lparr>currentlyPlaying = None, items = map new_item ids\<rparr>"

definition playing :: "player \<Rightarrow> string list" where
  "playing v = map item_id (filter audio_playing (items v))"

text \<open>
  A \<open>togglePlay\<close> of row \<open>i\<close> that runs from the click to its end with nothing in between:
  the detail response \<open>r\<close> is used when the row has no preview yet, \<open>started\<close> tells
  whether \<open>play()\<close> resolves.
\<close>

definition toggle_to_end :: "nat \<Rightarrow> song_detail response \<Rightarrow> bool \<Rightarrow> player \<Rightarrow> player" where
  "toggle_to_end i r started v =
     (if i \<ge> length (items v) then v
      else
        (let it = items v ! i in
         if item_isPlaying (currentlyPlaying v) it then player_step (Click i) v
         else if \<not> truthy (item_previewUrl it)
         then (case r of
                 Ok data \<Rightarrow>
                   if truthy (preview_url data)
                   then player_step (PlaySettled i True started)
                          (player_step (DetailFetched i r) (player_step (Click i) v))
                   else player_step (DetailFetched i r) (player_step (Click i) v)
               | _ \<Rightarrow> player_step (DetailFetched i r) (player_step (Click i) v))
         else player_step (PlaySettled i False started) (player_step (Click i) v)))"

fun toggles :: "(nat \<times> song_detail response \<times> bool) list \<Rightarrow> player \<Rightarrow> player" where
  "toggles [] v = v"
| "toggles (t # ts) v = toggles ts (toggle_to_end (fst t) (fst (snd t)) (snd (snd t)) v)"

text \<open>
  Between toggles: the effects have run for the current value of \<open>currentlyPlaying\<close>, and
  a row plays only if it is the row \<open>currentlyPlaying\<close> names.
\<close>

definition settled :: "player \<Rightarrow> bool" where
  "settled v = list_all (\<lambda>it. effect_isPlaying it = item_isPlaying (currentlyPlaying v) it
                              \<and> (audio_playing it \<longrightarrow> effect_isPlaying it)) (items v)"

subsection \<open>Concrete states\<close>

definition song_a :: song where
  "song_a = \<lparr>track_id = Some ''a'', track_name = ''Song A'', artists = ''Artist A'',
     track_genre = ''pop''\<rparr>"

definition song_b :: song where
  "song_b = \<lparr>track_id = Some ''b'', track_name = ''Song B'', artists = ''Artist B'',
     track_genre = ''rock''\<rparr>"

definition user_d :: user_data where
  "user_d = \<lparr>user_name = ''Dev'', user_email = ''test@test.com''\<rparr>"

definition app_swiping :: app where
  "app_swiping = \<lparr>step = Swiping, userData = Some user_d, sessionId = Some ''s1'',
     songs = [song_a, song_b], currentSongIndex = 0, recommendations = []\<rparr>"

definition app_loading :: app where
  "app_loading = \<lparr>step = Loading, userData = Some user_d, sessionId = Some ''s1'',
     songs = [song_a, song_b], currentSongIndex = 2, recommendations = []\<rparr>"

definition app_recommended :: app where
  "app_recommended = \<lparr>step = Recommendations, userData = Some user_d, sessionId = Some ''s1'',
     songs = [song_a, song_b], currentSongIndex = 2, recommendations = [song_b]\<rparr>"

definition app_empty_queue :: app where
  "app_empty_queue = \<lparr>step = Swiping, userData = Some user_d, sessionId = Some ''s1'',
     songs = [], currentSongIndex = 0, recommendations = []\<rparr>"

text \<open>
  One round: registration, genres, a like, a dislike whose call fails and is made again,
  the recommendations, Start Over.
\<close>

definition one_round :: "sys_event list" where
  "one_round =
     [SubmitLogin user_d, RegistrationResponse 0 (Ok (Some ''s1'')),
      SubmitGenres [''pop'', ''rock''], StartResponse 0 (Ok [song_a, song_b]),
      Commit True, SwipeResponse 0 (Ok ()), Commit False, SwipeResponse 0 (NotOk None),
      Commit False, SwipeResponse 0 (Ok ()), TimerFires 0,
      RecommendationsResponse 0 (Ok (Some [song_b])), StartOver]"

text \<open>
  Two commits of song A are made before the response to the first has arrived. The
  response to the second arrives, song B is committed, the recommendations come and the
  user presses Start Over. Then the response to the first commit arrives, and the user
  submits genres.
\<close>

definition late_swipe_response :: "sys_event list" where
  "late_swipe_response =
     [SubmitLogin user_d, RegistrationResponse 0 (Ok (Some ''s1'')),
      SubmitGenres [''pop'', ''rock''], StartResponse 0 (Ok [song_a, song_b]),
      Commit True, Commit True, SwipeResponse 1 (Ok ()), Commit False, SwipeResponse 1 (Ok ()),
      TimerFires 1, RecommendationsResponse 1 (Ok (Some [song_b])), StartOver,
      SwipeResponse 0 (Ok ()), SubmitGenres [''jazz'']]"

text \<open>
  The genres are submitted twice. The first response starts the swiping step and song A
  is committed; then the second response arrives.
\<close>

definition second_start_response :: "sys_event list" where
  "second_start_response =
     [SubmitLogin user_d, RegistrationResponse 0 (Ok (Some ''s1'')),
      SubmitGenres [''pop'', ''rock''], SubmitGenres [''pop'', ''rock''],
      StartResponse 0 (Ok [song_a, song_b]), Commit True, SwipeResponse 1 (Ok ()),
      StartResponse 0 (Ok [song_b, song_a])]"

text \<open>Song A is committed twice before the first response arrives; both calls succeed.\<close>

definition overlapping_commits :: "sys_event list" where
  "overlapping_commits =
     [Commit True, Commit False, SwipeResponse 0 (Ok ()), SwipeResponse 0 (Ok ())]"

text \<open>A like, a dislike whose call fails, the dislike again.\<close>

definition two_commits :: "sys_event list" where
  "two_commits =
     [Commit True, SwipeResponse 0 (Ok ()), Commit False, SwipeResponse 0 (NotOk None),
      Commit False, SwipeResponse 0 (Ok ())]"

definition detail_a :: song_detail where
  "detail_a = \<lparr>image_url = Some ''image-a'', preview_url = Some ''preview-a''\<rparr>"

definition detail_b :: song_detail where
  "detail_b = \<lparr>image_url = Some ''image-b'', preview_url = Some ''preview-b''\<rparr>"

definition card_a :: card where
  "card_a = fst (mount (Some song_a))"

text \<open>
  The card has advanced from song A to song B while the detail request for A was in
  flight, and the response for B has arrived.
\<close>

definition card_b_loaded :: card where
  "card_b_loaded = fetchSongDetails_resume ''b'' (Ok detail_b) (fst (set_song (Some song_b) card_a))"

text \<open>A drag has started on the card, and the like button is pressed before the release.\<close>

definition card_animating :: card where
  "card_animating = fst (button_onClick Like (onDragStart card_a))"

text \<open>A drag is in progress and has moved and turned the card.\<close>

definition card_dragged :: card where
  "card_dragged =
     (onDragStart card_a)\<lparr>controls := \<lparr>pose_x = 100, pose_rotate = 10, pose_opacity = 1\<rparr>\<rparr>"

text \<open>
  The right arrow key commits a like, the backend call fails; the left arrow key then
  commits a dislike, and that call succeeds.
\<close>

definition retry_after_failure :: "ui_event list" where
  "retry_after_failure =
     [Trigger (KeyPress ''ArrowRight''), AnimationFinished Like, SwipeResponded 0 (NotOk None),
      Trigger (KeyPress ''ArrowLeft''), AnimationFinished Dislike, SwipeResponded 0 (Ok ())]"

definition two_rows_started :: "player_event list" where
  "two_rows_started =
     [Click 0, Click 1, DetailFetched 0 (Ok detail_a), PlaySettled 0 True True,
      DetailFetched 1 (Ok detail_b)]"

section \<open>Properties of the top-level component\<close>

subsection \<open>The handlers and their two parts\<close>

text \<open>
  A handler as a whole is its part up to the await followed, on the same state, by its
  part after the await.
\<close>

lemma handleSwipe_cut:
  "handleSwipe liked r a =
     (case handleSwipe_call liked a of
        (None, out) \<Rightarrow> (a, out)
      | (Some c, out) \<Rightarrow> (fst (handleSwipe_resume c r a), out @ snd (handleSwipe_resume c r a)))"
  by (auto simp: handleSwipe_def handleSwipe_call_def handleSwipe_resume_def Let_def
      split: option.splits response.splits)

lemma handleStart_cut:
  "handleStart g r a =
     (fst (handleStart_resume r a), Fetch (InitialSongs g (sessionId a)) # snd (handleStart_resume r a))"
  by (cases r) (simp_all add: handleStart_def handleStart_resume_def)

lemma handleRegistration_cut:
  "handleRegistration d r a =
     (fst (handleRegistration_resume d r a), Fetch (UserLogin d) # snd (handleRegistration_resume d r a))"
  by (cases r) (simp_all add: handleRegistration_def handleRegistration_resume_def)

lemma getRecommendations_cut:
  "getRecommendations r a =
     (if snd (fst (getRecommendations_call (sessionId a) a))
      then (fst (getRecommendations_resume r a),
            snd (getRecommendations_call (sessionId a) a) @ snd (getRecommendations_resume r a))
      else (fst (fst (getRecommendations_call (sessionId a) a)),
            snd (getRecommendations_call (sessionId a) a)))"
  by (auto simp: getRecommendations_def getRecommendations_call_def getRecommendations_resume_def
      recommendations_failed_def split: response.splits option.splits list.splits)

lemma pending_at_in: "pending_at k p = Some x \<Longrightarrow> x \<in> set p"
  by (auto simp: pending_at_def split: if_splits)

lemma set_settle: "set (settle k p) \<subseteq> set p"
  using set_take_subset[of k p] set_drop_subset[of "Suc k" p] by (auto simp: settle_def)

lemmas run_defs = handleSwipe_call_def handleSwipe_resume_def handleRegistration_resume_def
  handleStart_resume_def getRecommendations_call_def getRecommendations_resume_def
  recommendations_failed_def handleRestart_def pending_at_def settle_def truthy_def
  swipe_alert_def or_else_def initial_app_def song_a_def song_b_def

subsection \<open>Restart\<close>

text \<open>
  After a restart with no request or timer under way that still holds a session id, the
  state stays without a session id and outside the registration step: the session id is
  set by \<open>handleRegistration\<close> only, no handler goes back to the registration step, every
  later swipe call and timer holds no session id, and \<open>getRecommendations\<close> throws
  \<open>No active session\<close> and restarts. So no run of events reaches the recommendations step
  again.
\<close>

lemma stranded_step: "stranded s \<Longrightarrow> stranded (fst (sys_step e s))"
proof -
  assume st: "stranded s"
  obtain a p where s: "s = (a, p)" by (cases s)
  have r: "sessionId a = None" "step a \<noteq> Registration" "step a \<noteq> Recommendations"
    "list_all without_session p"
    using st s by (simp_all add: stranded_def)
  have sub: "\<And>k. list_all without_session (settle k p)"
    using r(4) set_settle by (auto simp: list_all_iff)
  have at: "\<And>k x. pending_at k p = Some x \<Longrightarrow> without_session x"
    using r(4) by (auto simp: list_all_iff dest: pending_at_in)
  show ?thesis
  proof (cases e)
    case (SubmitLogin d)
    then show ?thesis using s r by (simp add: stranded_def)
  next
    case (SubmitGenres g)
    then show ?thesis using s r by (simp add: stranded_def)
  next
    case (Commit l)
    then show ?thesis using s r
      by (auto simp: stranded_def handleSwipe_call_def truthy_def Let_def split: option.splits)
  next
    case StartOver
    then show ?thesis using s r by (simp add: stranded_def handleRestart_def)
  next
    case (RegistrationResponse k x)
    then show ?thesis using s r at[of k]
      by (auto simp: stranded_def split: option.splits pending.splits)
  next
    case (StartResponse k x)
    then show ?thesis using s r sub[of k]
      by (cases x) (auto simp: stranded_def handleStart_resume_def split: option.splits pending.splits)
  next
    case (SwipeResponse k x)
    then show ?thesis using s r sub[of k] at[of k]
      by (cases x)
        (auto simp: stranded_def handleSwipe_resume_def swipe_alert_def Let_def
          split: option.splits pending.splits)
  next
    case (TimerFires k)
    then show ?thesis using s r sub[of k] at[of k]
      by (auto simp: stranded_def getRecommendations_call_def recommendations_failed_def
          handleRestart_def split: option.splits pending.splits)
  next
    case (RecommendationsResponse k x)
    then show ?thesis using s r at[of k]
      by (auto simp: stranded_def split: option.splits pending.splits)
  qed
qed

lemma stranded_run: "stranded s \<Longrightarrow> stranded (fst (sys_run es s))"
proof (induction es arbitrary: s)
  case Nil
  then show ?case by simp
next
  case (Cons e es)
  from Cons.IH[OF stranded_step[OF Cons.prems, of e]] show ?case by (simp add: split_beta)
qed

lemma restart_never_recommends:
  "list_all without_session p \<Longrightarrow>
   step (fst (fst (sys_run es (handleRestart a, p)))) \<noteq> Recommendations"
proof -
  assume "list_all without_session p"
  then have "stranded (handleRestart a, p)" by (simp add: stranded_def handleRestart_def)
  then have "stranded (fst (sys_run es (handleRestart a, p)))" by (rule stranded_run)
  then show ?thesis by (simp add: stranded_def)
qed

text \<open>
  Claim C1. A restart, by the user from the recommendations step or forced by a failed
  recommendations fetch, sets the step to genre selection, empties the queue, puts the
  cursor at 0 and empties the recommendation list; the claim adds that the session id is
  kept. The code evaluates otherwise at a state with session id \<open>s1\<close>: both restarts end
  with no session id.
\<close>

theorem C1_restart_drops_session:
  "sessionId app_recommended = Some ''s1'' \<and>
   handleRestart app_recommended =
     \<lparr>step = Genres, userData = Some user_d, sessionId = None, songs = [],
      currentSongIndex = 0, recommendations = []\<rparr> \<and>
   sessionId app_loading = Some ''s1'' \<and>
   fst (getRecommendations (Rejected ''Failed to fetch'') app_loading) =
     \<lparr>step = Genres, userData = Some user_d, sessionId = None, songs = [],
      currentSongIndex = 0, recommendations = []\<rparr>"
  by (simp add: app_recommended_def app_loading_def handleRestart_def getRecommendations_def
      recommendations_failed_def truthy_def)

subsection \<open>Swipe commits\<close>

text \<open>
  Claim C2 as stated: after a swipe commit whose backend call fails the cursor has moved
  forward by one. At the first song of a queue of two, with a response that is not ok,
  the cursor has not moved.
\<close>

theorem C2_counterexample:
  "currentSongIndex (fst (handleSwipe True (NotOk None) app_swiping))
     \<noteq> currentSongIndex app_swiping + 1"
  by (simp add: handleSwipe_def app_swiping_def song_a_def)

text \<open>
  Claim C2, amended. A swipe commit whose backend call fails leaves the whole state as it
  was (step, session id, queue, cursor, recommendations), so the same card stays active;
  and when the request was sent, the failure is reported by an alert.
\<close>

theorem C2_failed_swipe_keeps_cursor:
  assumes "\<not> is_ok r"
  shows "fst (handleSwipe liked r a) = a \<and>
         (list_ex is_swipe_request (snd (handleSwipe liked r a))
            \<longrightarrow> list_ex is_alert (snd (handleSwipe liked r a)))"
  using assms
  by (cases r) (auto simp: handleSwipe_def Let_def swipe_alert_def split: option.splits)

theorem C2_failed_swipe_keeps_cursor_witness:
  "\<not> is_ok (NotOk None :: unit response) \<and>
   fst (handleSwipe True (NotOk None) app_swiping) = app_swiping \<and>
   list_ex is_swipe_request (snd (handleSwipe True (NotOk None) app_swiping)) \<and>
   list_ex is_alert (snd (handleSwipe True (NotOk None) app_swiping))"
  using C2_failed_swipe_keeps_cursor [of "NotOk None" True app_swiping]
  by (simp add: handleSwipe_def app_swiping_def song_a_def swipe_alert_def)

text \<open>
  Claim C10. When the cursor is at or past the end of the queue (an empty queue
  included), \<open>handleSwipe\<close> returns at once: no backend call, no other effect, and the state
  is the one it started from.
\<close>

theorem C10_swipe_outside_queue_is_noop:
  "currentSongIndex a \<ge> length (songs a) \<Longrightarrow> handleSwipe liked r a = (a, [])"
  by (simp add: handleSwipe_def)

theorem C10_swipe_outside_queue_is_noop_witness:
  "currentSongIndex app_loading \<ge> length (songs app_loading) \<and>
   handleSwipe True (Ok ()) app_loading = (app_loading, []) \<and>
   currentSongIndex app_empty_queue \<ge> length (songs app_empty_queue) \<and>
   handleSwipe False (Ok ()) app_empty_queue = (app_empty_queue, [])"
  using C10_swipe_outside_queue_is_noop [of app_loading True "Ok ()"]
    C10_swipe_outside_queue_is_noop [of app_empty_queue False "Ok ()"]
  by (simp add: app_loading_def app_empty_queue_def)

subsection \<open>Exhausting the queue\<close>

text \<open>
  One event of the swiping phase, from a state in which the queue is not empty, the
  cursor is within it, the step is loading exactly when the cursor is at its end, and
  every swipe call under way was made on this queue at a position inside it: the state
  after the event is such a state again, the cursor has moved by one if the event is a
  successful swipe response and not at all otherwise, and a recommendations timer is set
  exactly when the cursor reaches the end of the queue.
\<close>

lemma swipe_phase_step:
  assumes len: "songs a \<noteq> []"
    and cur: "currentSongIndex a \<le> length (songs a)"
    and stp: "step a = (if currentSongIndex a = length (songs a) then Loading else Swiping)"
    and pen: "\<forall>x\<in>set p. \<forall>c. x = SwipePending c \<longrightarrow>
                call_length c = length (songs a) \<and> call_index c < length (songs a)"
    and ev: "is_swipe_event e"
    and adv: "advances e (a, p)"
    and res: "sys_step e (a, p) = ((a1, p1), out)"
  shows "songs a1 = songs a
       \<and> currentSongIndex a1 = currentSongIndex a + (if commits e (a, p) then 1 else 0)
       \<and> currentSongIndex a1 \<le> length (songs a)
       \<and> step a1 = (if currentSongIndex a1 = length (songs a) then Loading else Swiping)
       \<and> (\<forall>x\<in>set p1. \<forall>c. x = SwipePending c \<longrightarrow>
                call_length c = length (songs a) \<and> call_index c < length (songs a))
       \<and> length (filter is_timeout out) =
           (if currentSongIndex a1 = length (songs a) \<and> currentSongIndex a < length (songs a)
            then 1 else 0)"
proof (cases e)
  case (Commit liked)
  then show ?thesis using res cur stp pen
    by (auto simp: handleSwipe_call_def Let_def swipe_alert_def split: if_splits option.splits prod.splits)
next
  case (SwipeResponse k r)
  show ?thesis
  proof (cases "pending_at k p")
    case None
    then show ?thesis using SwipeResponse res cur stp pen by auto
  next
    case (Some x)
    show ?thesis
    proof (cases x)
      case (SwipePending c)
      have cin: "SwipePending c \<in> set p" using Some SwipePending by (auto dest: pending_at_in)
      then have c: "call_length c = length (songs a)" "call_index c < length (songs a)"
        using pen by auto
      have sub: "\<forall>x\<in>set (settle k p). \<forall>c. x = SwipePending c \<longrightarrow>
                call_length c = length (songs a) \<and> call_index c < length (songs a)"
        using pen set_settle[of k p] by blast
      show ?thesis
      proof (cases r)
        case (Ok u)
        then have "call_index c = currentSongIndex a"
          using adv SwipeResponse Some SwipePending by simp
        then show ?thesis using Ok SwipeResponse Some SwipePending res c sub stp cur
          by (auto simp: handleSwipe_resume_def Let_def split: if_splits)
      next
        case (Rejected msg)
        then show ?thesis using SwipeResponse Some SwipePending res sub stp cur
          by (auto simp: handleSwipe_resume_def swipe_alert_def)
      next
        case (NotOk m)
        then show ?thesis using SwipeResponse Some SwipePending res sub stp cur
          by (auto simp: handleSwipe_resume_def swipe_alert_def)
      qed
    qed (use SwipeResponse Some res cur stp pen in auto)
  qed
qed (use ev in simp_all)

lemma swipe_phase_run:
  assumes "songs a \<noteq> []"
    and "currentSongIndex a \<le> length (songs a)"
    and "step a = (if currentSongIndex a = length (songs a) then Loading else Swiping)"
    and "\<forall>x\<in>set p. \<forall>c. x = SwipePending c \<longrightarrow>
                call_length c = length (songs a) \<and> call_index c < length (songs a)"
    and "list_all is_swipe_event es"
    and "advancing es (a, p)"
  shows "songs (fst (fst (sys_run es (a, p)))) = songs a
       \<and> currentSongIndex (fst (fst (sys_run es (a, p)))) = currentSongIndex a + committed es (a, p)
       \<and> currentSongIndex (fst (fst (sys_run es (a, p)))) \<le> length (songs a)
       \<and> step (fst (fst (sys_run es (a, p)))) =
           (if currentSongIndex (fst (fst (sys_run es (a, p)))) = length (songs a)
            then Loading else Swiping)
       \<and> length (filter is_timeout (snd (sys_run es (a, p)))) =
           (if currentSongIndex (fst (fst (sys_run es (a, p)))) = length (songs a)
               \<and> currentSongIndex a < length (songs a)
            then 1 else 0)"
  using assms
proof (induction es arbitrary: a p)
  case Nil
  then show ?case by simp
next
  case (Cons e es)
  obtain a1 p1 out where res: "sys_step e (a, p) = ((a1, p1), out)"
    by (metis surj_pair)
  have ev: "is_swipe_event e" and evs: "list_all is_swipe_event es"
    using Cons.prems(5) by simp_all
  have adv: "advances e (a, p)" and advs: "advancing es (a1, p1)"
    using Cons.prems(6) res by simp_all
  note st = swipe_phase_step[OF Cons.prems(1-4) ev adv res]
  have ih: "songs (fst (fst (sys_run es (a1, p1)))) = songs a1
       \<and> currentSongIndex (fst (fst (sys_run es (a1, p1)))) = currentSongIndex a1 + committed es (a1, p1)
       \<and> currentSongIndex (fst (fst (sys_run es (a1, p1)))) \<le> length (songs a1)
       \<and> step (fst (fst (sys_run es (a1, p1)))) =
           (if currentSongIndex (fst (fst (sys_run es (a1, p1)))) = length (songs a1)
            then Loading else Swiping)
       \<and> length (filter is_timeout (snd (sys_run es (a1, p1)))) =
           (if currentSongIndex (fst (fst (sys_run es (a1, p1)))) = length (songs a1)
               \<and> currentSongIndex a1 < length (songs a1)
            then 1 else 0)"
    by (rule Cons.IH) (use st Cons.prems(1) evs advs in auto)
  have run: "sys_run (e # es) (a, p) = (fst (sys_run es (a1, p1)), out @ snd (sys_run es (a1, p1)))"
    using res by (simp add: split_beta)
  have com: "committed (e # es) (a, p) = (if commits e (a, p) then 1 else 0) + committed es (a1, p1)"
    using res by simp
  show ?case unfolding run com using st ih
    by (auto split: if_splits)
qed

text \<open>
  Claim C4 as stated: for every queue of N songs the step goes from swiping to loading,
  exactly once, after N successful commits, each of which advances the cursor by one.
  For the empty queue (N = 0) the step is still swiping after the 0 commits, no
  recommendations timer has been set, and a further commit changes nothing. On a queue
  of two songs, two commits of the first song made before the first response arrives
  both succeed: two decisions are committed, the cursor is 1, the step is still swiping
  and no timer has been set.
\<close>

theorem C4_counterexample:
  "committed [] (app_empty_queue, []) = length (songs app_empty_queue) \<and>
   step (fst (fst (sys_run [] (app_empty_queue, [])))) = Swiping \<and>
   filter is_timeout (snd (sys_run [] (app_empty_queue, []))) = [] \<and>
   sys_run [Commit True] (app_empty_queue, []) = ((app_empty_queue, []), []) \<and>
   committed overlapping_commits (app_swiping, []) = length (songs app_swiping) \<and>
   currentSongIndex (fst (fst (sys_run overlapping_commits (app_swiping, [])))) = 1 \<and>
   step (fst (fst (sys_run overlapping_commits (app_swiping, [])))) = Swiping \<and>
   filter is_timeout (snd (sys_run overlapping_commits (app_swiping, []))) = []"
  by (simp add: app_empty_queue_def app_swiping_def overlapping_commits_def run_defs)

text \<open>
  Claim C4, amended to a queue that is not empty and to successful commits that do each
  advance the cursor by one. Start in the swiping step at cursor 0 of a queue of N > 0
  songs with no swipe call under way, and take any run of swipe commits and swipe
  responses, likes and dislikes in any order, failed backend calls among them, calls
  under way at the same time allowed, in which every successful response belongs to a
  call made at the cursor of the moment it arrives. Then the cursor is the number of
  successfully committed decisions, which is at most N; while fewer than N are committed
  the step is swiping and no recommendations timer has been set; after exactly N the
  step is loading and exactly one timer has been set.
\<close>

theorem C4_queue_exhausted_once:
  assumes "step a = Swiping" "currentSongIndex a = 0" "songs a \<noteq> []"
    and "list_all is_swipe_event es" "advancing es (a, [])"
  shows "currentSongIndex (fst (fst (sys_run es (a, [])))) = committed es (a, []) \<and>
         committed es (a, []) \<le> length (songs a) \<and>
         step (fst (fst (sys_run es (a, [])))) =
           (if committed es (a, []) = length (songs a) then Loading else Swiping) \<and>
         length (filter is_timeout (snd (sys_run es (a, [])))) =
           (if committed es (a, []) = length (songs a) then 1 else 0)"
proof -
  have "currentSongIndex a \<le> length (songs a)"
    "step a = (if currentSongIndex a = length (songs a) then Loading else Swiping)"
    "\<forall>x\<in>set []. \<forall>c. x = SwipePending c \<longrightarrow>
                call_length c = length (songs a) \<and> call_index c < length (songs a)"
    using assms(1-3) by auto
  from swipe_phase_run[OF assms(3) this assms(4,5)] show ?thesis
    using assms(2,3) by auto
qed

theorem C4_queue_exhausted_once_witness:
  "step app_swiping = Swiping \<and> currentSongIndex app_swiping = 0 \<and> songs app_swiping \<noteq> [] \<and>
   list_all is_swipe_event two_commits \<and> advancing two_commits (app_swiping, []) \<and>
   committed two_commits (app_swiping, []) = length (songs app_swiping) \<and>
   currentSongIndex (fst (fst (sys_run two_commits (app_swiping, [])))) = 2 \<and>
   step (fst (fst (sys_run two_commits (app_swiping, [])))) = Loading \<and>
   length (filter is_timeout (snd (sys_run two_commits (app_swiping, [])))) = 1 \<and>
   committed (take 4 two_commits) (app_swiping, []) = 1 \<and>
   step (fst (fst (sys_run (take 4 two_commits) (app_swiping, [])))) = Swiping \<and>
   length (filter is_timeout (snd (sys_run (take 4 two_commits) (app_swiping, [])))) = 0"
proof -
  have h: "step app_swiping = Swiping" "currentSongIndex app_swiping = 0"
    "songs app_swiping \<noteq> []"
    by (simp_all add: app_swiping_def)
  have e: "list_all is_swipe_event two_commits" "list_all is_swipe_event (take 4 two_commits)"
    by (simp_all add: two_commits_def)
  have a: "advancing two_commits (app_swiping, [])"
    "advancing (take 4 two_commits) (app_swiping, [])"
    by (simp_all add: two_commits_def app_swiping_def run_defs)
  have c: "committed two_commits (app_swiping, []) = 2"
    "committed (take 4 two_commits) (app_swiping, []) = 1"
    "length (songs app_swiping) = 2"
    by (simp_all add: two_commits_def app_swiping_def run_defs)
  show ?thesis
    using h e(1) a(1) c C4_queue_exhausted_once [OF h e(1) a(1)]
      C4_queue_exhausted_once [OF h e(2) a(2)]
    by simp
qed

subsection \<open>The recommendations fetch\<close>

text \<open>
  Claim C5. A recommendations response whose list is missing or empty leaves the same
  state as a fetch that throws or a response that is not ok: the state of a restart, in
  the genre selection step, with the queue and the recommendations empty.
\<close>

theorem C5_empty_list_is_a_failure:
  "fst (getRecommendations (Ok None) a) = handleRestart a \<and>
   fst (getRecommendations (Ok (Some [])) a) = handleRestart a \<and>
   fst (getRecommendations (Rejected msg) a) = handleRestart a \<and>
   fst (getRecommendations (NotOk e) a) = handleRestart a \<and>
   step (handleRestart a) = Genres \<and> songs (handleRestart a) = [] \<and>
   recommendations (handleRestart a) = []"
  by (simp add: getRecommendations_def recommendations_failed_def handleRestart_def)

subsection \<open>Entering the swiping step\<close>

text \<open>
  From a state of the registration or genre selection step with cursor 0, an empty queue
  and no swipe response under way, no event leads to such a step with another cursor,
  and no event leads to the swiping step with another cursor.
\<close>

lemma not_swipe_pending_settle:
  "\<not> list_ex is_swipe_pending p \<Longrightarrow> \<not> list_ex is_swipe_pending (settle k p)"
  using set_settle[of k p] by (auto simp: list_ex_iff)

lemma at_rest_step:
  assumes "at_rest s"
  shows "(step (fst (fst (sys_step e s))) = Registration \<or> step (fst (fst (sys_step e s))) = Genres
            \<longrightarrow> at_rest (fst (sys_step e s)))
       \<and> (step (fst (fst (sys_step e s))) = Swiping
            \<longrightarrow> currentSongIndex (fst (fst (sys_step e s))) = 0)"
proof -
  obtain a p where s: "s = (a, p)" by (cases s)
  have r: "step a = Registration \<or> step a = Genres" "currentSongIndex a = 0" "songs a = []"
    "\<not> list_ex is_swipe_pending p"
    using assms s by (simp_all add: at_rest_def)
  note ns = not_swipe_pending_settle[OF r(4)]
  show ?thesis
  proof (cases e)
    case (SubmitLogin d)
    then show ?thesis using s r by (auto simp: at_rest_def)
  next
    case (SubmitGenres g)
    then show ?thesis using s r by (auto simp: at_rest_def)
  next
    case (Commit l)
    then show ?thesis using s r by (auto simp: at_rest_def handleSwipe_call_def)
  next
    case StartOver
    then show ?thesis using s r by (auto simp: at_rest_def handleRestart_def)
  next
    case (RegistrationResponse k x)
    then show ?thesis using s r ns[of k]
      by (cases x) (auto simp: at_rest_def handleRegistration_resume_def split: option.splits pending.splits)
  next
    case (StartResponse k x)
    then show ?thesis using s r ns[of k]
      by (cases x) (auto simp: at_rest_def handleStart_resume_def split: option.splits pending.splits)
  next
    case (SwipeResponse k x)
    have "\<And>c. pending_at k p \<noteq> Some (SwipePending c)"
    proof
      fix c assume "pending_at k p = Some (SwipePending c)"
      then have "SwipePending c \<in> set p" by (rule pending_at_in)
      moreover have "is_swipe_pending (SwipePending c)" by simp
      ultimately have "list_ex is_swipe_pending p" unfolding list_ex_iff by (rule bexI[rotated])
      then show False using r(4) by simp
    qed
    then show ?thesis using SwipeResponse s r
      by (auto simp: at_rest_def split: option.splits pending.splits)
  next
    case (TimerFires k)
    then show ?thesis using s r ns[of k]
      by (auto simp: at_rest_def getRecommendations_call_def recommendations_failed_def
          handleRestart_def split: option.splits pending.splits)
  next
    case (RecommendationsResponse k x)
    then show ?thesis using s r ns[of k]
      by (auto simp: at_rest_def getRecommendations_resume_def recommendations_failed_def
          handleRestart_def split: option.splits pending.splits response.splits list.splits)
  qed
qed

lemma at_rest_run: "at_rest s \<Longrightarrow> in_genre_phase es s \<Longrightarrow> at_rest (fst (sys_run es s))"
proof (induction es arbitrary: s)
  case Nil
  then show ?case by simp
next
  case (Cons e es)
  have "at_rest (fst (sys_step e s))"
    using at_rest_step[OF Cons.prems(1), of e] Cons.prems(2) by auto
  moreover have "in_genre_phase es (fst (sys_step e s))" using Cons.prems(2) by simp
  ultimately have "at_rest (fst (sys_run es (fst (sys_step e s))))" by (rule Cons.IH)
  then show ?case by (simp add: split_beta)
qed

text \<open>
  Claim C8 as stated: in every reachable state, a successful genre submission enters the
  swiping step with the returned queue and the cursor at 0. In the first run below the
  response to a commit of song A arrives after Start Over: it writes the cursor of its
  closure plus one, so the genre selection step has cursor 1, and the next successful
  genre submission enters the swiping step at position 1 of the new queue. In the second
  run the genres are submitted twice: the second response replaces the queue after song
  A was committed, and the cursor stays 1.
\<close>

theorem C8_counterexample:
  "step (fst (fst (sys_run late_swipe_response (initial_app, [])))) = Genres \<and>
   fst (fst (sys_step (StartResponse 0 (Ok [song_b, song_a]))
               (fst (sys_run late_swipe_response (initial_app, [])))))
     = \<lparr>step = Swiping, userData = Some user_d, sessionId = None, songs = [song_b, song_a],
        currentSongIndex = 1, recommendations = []\<rparr> \<and>
   fst (fst (sys_run second_start_response (initial_app, [])))
     = \<lparr>step = Swiping, userData = Some user_d, sessionId = Some ''s1'', songs = [song_b, song_a],
        currentSongIndex = 1, recommendations = []\<rparr>"
  by (simp add: late_swipe_response_def second_start_response_def run_defs)

text \<open>
  Claim C8, amended. A successful genre submission, in whatever state its response
  arrives, puts the returned queue in place of any prior queue and sets the step to
  swiping; \<open>handleStart\<close> does not write the cursor, which keeps the value it had. The
  initial state has the cursor at 0, and a restart sets it to 0. When the registration
  and genre phase starts from the initial state, or from a restart at which no swipe
  response is under way, the cursor stays 0 throughout this phase, and the swiping step
  is entered at position 0.
\<close>

theorem C8_start_keeps_cursor:
  "step (fst (handleStart g (Ok q) a)) = Swiping \<and>
   songs (fst (handleStart g (Ok q) a)) = q \<and>
   currentSongIndex (fst (handleStart g (Ok q) a)) = currentSongIndex a \<and>
   fst (sys_step (StartResponse k (Ok q)) (a, p)) =
     (if pending_at k p = Some StartPending then (fst (handleStart g (Ok q) a), settle k p) else (a, p)) \<and>
   at_rest (initial_app, []) \<and>
   (\<not> list_ex is_swipe_pending p \<longrightarrow> at_rest (handleRestart a, p)) \<and>
   (at_rest s \<and> in_genre_phase es s \<and>
    step (fst (fst (sys_step e (fst (sys_run es s))))) = Swiping \<longrightarrow>
      currentSongIndex (fst (fst (sys_step e (fst (sys_run es s))))) = 0)"
proof -
  have 1: "step (fst (handleStart g (Ok q) a)) = Swiping \<and>
           songs (fst (handleStart g (Ok q) a)) = q \<and>
           currentSongIndex (fst (handleStart g (Ok q) a)) = currentSongIndex a"
    by (simp add: handleStart_def)
  have 2: "fst (sys_step (StartResponse k (Ok q)) (a, p)) =
     (if pending_at k p = Some StartPending then (fst (handleStart g (Ok q) a), settle k p) else (a, p))"
    by (auto simp: handleStart_def handleStart_resume_def split: option.splits pending.splits)
  have 3: "at_rest (initial_app, [])" by (simp add: at_rest_def initial_app_def)
  have 4: "\<not> list_ex is_swipe_pending p \<longrightarrow> at_rest (handleRestart a, p)"
    by (simp add: at_rest_def handleRestart_def)
  have 5: "at_rest s \<and> in_genre_phase es s \<and>
    step (fst (fst (sys_step e (fst (sys_run es s))))) = Swiping \<longrightarrow>
      currentSongIndex (fst (fst (sys_step e (fst (sys_run es s))))) = 0"
    using at_rest_run[of s es] at_rest_step[of "fst (sys_run es s)" e] by blast
  show ?thesis using 1 2 3 4 5 by blast
qed

theorem C8_start_keeps_cursor_witness:
  "\<not> list_ex is_swipe_pending (snd (fst (sys_run (butlast one_round) (initial_app, [])))) \<and>
   fst (sys_run one_round (initial_app, []))
     = (handleRestart (fst (fst (sys_run (butlast one_round) (initial_app, [])))),
        snd (fst (sys_run (butlast one_round) (initial_app, [])))) \<and>
   at_rest (fst (sys_run one_round (initial_app, []))) \<and>
   in_genre_phase [SubmitGenres [''jazz'']] (fst (sys_run one_round (initial_app, []))) \<and>
   step (fst (fst (sys_step (StartResponse 0 (Ok [song_b, song_a]))
     (fst (sys_run [SubmitGenres [''jazz'']] (fst (sys_run one_round (initial_app, [])))))))) = Swiping \<and>
   currentSongIndex (fst (fst (sys_step (StartResponse 0 (Ok [song_b, song_a]))
     (fst (sys_run [SubmitGenres [''jazz'']] (fst (sys_run one_round (initial_app, [])))))))) = 0"
proof -
  let ?before = "fst (sys_run (butlast one_round) (initial_app, []))"
  let ?after = "fst (sys_run one_round (initial_app, []))"
  have p: "\<not> list_ex is_swipe_pending (snd ?before)"
    by (simp add: one_round_def run_defs)
  have eq: "?after = (handleRestart (fst ?before), snd ?before)"
    by (simp add: one_round_def run_defs)
  have g: "in_genre_phase [SubmitGenres [''jazz'']] ?after"
    by (simp add: one_round_def run_defs)
  have sw: "step (fst (fst (sys_step (StartResponse 0 (Ok [song_b, song_a]))
     (fst (sys_run [SubmitGenres [''jazz'']] ?after))))) = Swiping"
    by (simp add: one_round_def run_defs)
  note t = C8_start_keeps_cursor [of "[''jazz'']" "[song_b, song_a]" "fst ?before" 0 "snd ?before" ?after
      "[SubmitGenres [''jazz'']]" "StartResponse 0 (Ok [song_b, song_a])"]
  have r: "at_rest ?after" using t p eq by simp
  show ?thesis using t p eq r g sw by blast
qed

section \<open>Properties of the song card\<close>

lemmas card_defs = card_a_def card_b_loaded_def card_animating_def mount_def set_song_def
  fetchSongDetails_def fetchSongDetails_resume_def song_track_id_def song_a_def song_b_def
  detail_a_def detail_b_def audioRef_current_def cardRef_current_def truthy_def neutral_def
  button_onClick_def onDragStart_def animateSwipe_def

subsection \<open>Detail responses\<close>

text \<open>
  Claim C3 as stated: a detail response for candidate K that arrives after the card has
  advanced to K+1 does not alter the album image and the preview URL of K+1. The card
  below shows song B with the media of B; the late response for song A replaces both
  with the media of A.
\<close>

theorem C3_counterexample:
  "card_song card_b_loaded = Some song_b \<and>
   albumImage card_b_loaded = Some ''image-b'' \<and>
   previewUrl card_b_loaded = Some ''preview-b'' \<and>
   albumImage (fetchSongDetails_resume ''a'' (Ok detail_a) card_b_loaded) = Some ''image-a'' \<and>
   previewUrl (fetchSongDetails_resume ''a'' (Ok detail_a) card_b_loaded) = Some ''preview-a''"
  by (simp add: card_defs)

text \<open>
  Claim C3, amended. A detail response is applied when it arrives, whichever candidate
  is active then and whichever candidate it was requested for: a successful response
  sets the album image and the preview URL to its own, a failed one clears both, and
  the active candidate stays the same. The media of the card are those of the response
  that arrived last.
\<close>

theorem C3_detail_response_always_applied:
  "card_song (fetchSongDetails_resume k r c) = card_song c \<and>
   albumImage (fetchSongDetails_resume k (Ok d) c) = image_url d \<and>
   previewUrl (fetchSongDetails_resume k (Ok d) c) = preview_url d \<and>
   albumImage (fetchSongDetails_resume k (Rejected msg) c) = None \<and>
   previewUrl (fetchSongDetails_resume k (Rejected msg) c) = None \<and>
   albumImage (fetchSongDetails_resume k (NotOk e) c) = None \<and>
   previewUrl (fetchSongDetails_resume k (NotOk e) c) = None"
  by (cases r) (simp_all add: fetchSongDetails_resume_def)

subsection \<open>Drag release\<close>

text \<open>
  Claim C6 as stated: every drag release with an offset beyond the threshold commits a
  decision. On the card below the like button was pressed during the drag, so a commit
  animation is in progress at the release: the release at offset 150 does nothing.
\<close>

theorem C6_counterexample:
  "isAnimating card_animating \<and> \<bar>150 :: real\<bar> > 100 \<and>
   onDragEnd 150 card_animating = (card_animating, [])"
  by (simp add: card_defs onDragEnd_def)

text \<open>
  Claim C6, amended. A drag release while a commit animation is in progress is ignored:
  no decision, and the state of the card, its pose included, is left as it is. A drag
  release on a displayed card while no commit animation is in progress, with an absolute
  offset above 100, starts the commit animation in the direction of the sign of the
  offset, and the end of that animation calls \<open>onSwipe\<close> once, with like for a positive
  offset and dislike for a negative one. A drag release while no commit animation is in
  progress, with an absolute offset of at most 100, commits no decision, starts no
  animation, and brings offset and rotation of the pose to 0.
\<close>

theorem C6_drag_release:
  "(isAnimating c \<longrightarrow> onDragEnd off c = (c, [])) \<and>
   (\<not> isAnimating c \<and> card_song c \<noteq> None \<and> \<bar>off\<bar> > 100 \<longrightarrow>
      isAnimating (fst (onDragEnd off c)) \<and>
      StartCommitAnimation (if off > 0 then Like else Dislike) \<in> set (snd (onDragEnd off c)) \<and>
      filter is_onSwipe
        (snd (animateSwipe_resume (if off > 0 then Like else Dislike) True (fst (onDragEnd off c))))
        = [OnSwipe (off > 0)]) \<and>
   (\<not> isAnimating c \<and> \<bar>off\<bar> \<le> 100 \<longrightarrow>
      snd (onDragEnd off c) = [] \<and>
      \<not> isAnimating (fst (onDragEnd off c)) \<and> \<not> isDragging (fst (onDragEnd off c)) \<and>
      pose_x (controls (fst (onDragEnd off c))) = 0 \<and>
      pose_rotate (controls (fst (onDragEnd off c))) = 0)"
  by (simp add: onDragEnd_def animateSwipe_def animateSwipe_resume_def cardRef_current_def Let_def)

theorem C6_drag_release_witness:
  "\<not> isAnimating card_a \<and> card_song card_a \<noteq> None \<and> \<bar>150 :: real\<bar> > 100 \<and>
   StartCommitAnimation Like \<in> set (snd (onDragEnd 150 card_a)) \<and>
   \<bar>- 150 :: real\<bar> > 100 \<and>
   StartCommitAnimation Dislike \<in> set (snd (onDragEnd (- 150) card_a)) \<and>
   \<not> isAnimating card_dragged \<and> \<bar>100 :: real\<bar> \<le> 100 \<and>
   pose_x (controls card_dragged) = 100 \<and> pose_rotate (controls card_dragged) = 10 \<and>
   snd (onDragEnd 100 card_dragged) = [] \<and>
   pose_x (controls (fst (onDragEnd 100 card_dragged))) = 0 \<and>
   pose_rotate (controls (fst (onDragEnd 100 card_dragged))) = 0 \<and>
   isAnimating card_animating \<and> onDragEnd 150 card_animating = (card_animating, [])"
  using C6_drag_release [of card_a 150] C6_drag_release [of card_a "- 150"]
    C6_drag_release [of card_dragged 100] C6_drag_release [of card_animating 150]
  by (simp add: card_defs card_dragged_def)

subsection \<open>Triggers during a commit animation\<close>

lemma fire_ignored: "isAnimating c \<Longrightarrow> fire t c = (c, [])"
  by (cases t) (simp_all add: onDragEnd_def button_onClick_def handleKeyDown_def)

lemma fire_all_ignored: "isAnimating c \<Longrightarrow> fire_all ts c = (c, [])"
  by (induction ts) (simp_all add: fire_ignored)

lemma fire_no_onSwipe: "filter is_onSwipe (snd (fire t c)) = []"
  by (cases t)
    (simp_all add: onDragEnd_def button_onClick_def handleKeyDown_def animateSwipe_def Let_def)

lemma handleSwipe_one_request: "length (filter is_swipe_request (snd (handleSwipe l r a))) \<le> 1"
  by (auto simp: handleSwipe_def Let_def swipe_alert_def split: option.splits response.splits)

text \<open>
  Claim C7 as stated: for each card at most one swipe decision is ever sent to the
  backend. In the run below the right arrow key commits a like for song A, the backend
  call fails, the card stays on song A, and after the animation has ended the left arrow
  key commits a dislike for it: two swipe decisions for track \<open>a\<close> are sent, a like and a
  dislike, and the cursor then moves on to song B.
\<close>

theorem C7_counterexample:
  "filter (is_swipe_for ''a'') (snd (ui_run retry_after_failure (app_swiping, card_a, [])))
     = [Fetch (Swipe (Some ''s1'') ''a'' True), Fetch (Swipe (Some ''s1'') ''a'' False)] \<and>
   currentSongIndex (fst (fst (ui_run retry_after_failure (app_swiping, card_a, [])))) = 1"
  by (simp add: retry_after_failure_def app_swiping_def card_defs handleKeyDown_def
      animateSwipe_resume_def handleSwipe_call_def handleSwipe_resume_def rerender_def
      swiping_song_def swipe_alert_def or_else_def)

text \<open>
  Claim C7, amended. While a commit animation is in progress, every run of further
  triggers (drag releases, button presses, key presses) leaves the card as it is and has
  no effect, so nothing is queued; a trigger never calls \<open>onSwipe\<close> itself; the end of the
  animation calls \<open>onSwipe\<close> exactly once, and that call sends at most one swipe request.
  So each commit animation sends at most one swipe decision. A card whose backend call
  failed stays active and can be committed again by a new animation.
\<close>

theorem C7_triggers_ignored_while_animating:
  assumes "isAnimating c"
  shows "fire_all ts c = (c, []) \<and>
         filter is_onSwipe (snd (fire t c0)) = [] \<and>
         filter is_onSwipe (snd (animateSwipe_resume d True (fst (fire_all ts c)))) = [OnSwipe (d = Like)] \<and>
         length (filter is_swipe_request (snd (handleSwipe (d = Like) r a))) \<le> 1"
  using fire_all_ignored[OF assms, of ts] fire_no_onSwipe[of t c0] handleSwipe_one_request[of "d = Like" r a]
  by (simp add: animateSwipe_resume_def)

theorem C7_triggers_ignored_while_animating_witness:
  "isAnimating card_animating \<and>
   fire_all [DragRelease 150, KeyPress ''ArrowLeft'', ButtonPress Dislike] card_animating
     = (card_animating, []) \<and>
   filter is_onSwipe (snd (animateSwipe_resume Like True
     (fst (fire_all [DragRelease 150, KeyPress ''ArrowLeft'', ButtonPress Dislike] card_animating))))
     = [OnSwipe True]"
proof -
  have h: "isAnimating card_animating" by (simp add: card_defs)
  from C7_triggers_ignored_while_animating [OF h,
      of "[DragRelease 150, KeyPress ''ArrowLeft'', ButtonPress Dislike]"
         "KeyPress ''ArrowLeft''" card_animating Like "Ok ()" app_swiping]
  show ?thesis using h by (auto simp del: fire_all.simps fire.simps)
qed

section \<open>Properties of the recommendations list\<close>

subsection \<open>Toggles that do not overlap\<close>

lemma settled_toggle: "settled v \<Longrightarrow> settled (toggle_to_end i r started v)"
  unfolding settled_def toggle_to_end_def
  by (auto simp: list_all_length Let_def togglePlay_def togglePlay_fetched_def togglePlay_played_def
      run_effects_def run_effect_def update_item_def stopCurrentAudio_def audio_pause_def audio_play_def
      item_isPlaying_def nth_list_update split: response.splits)

lemma settled_initial: "settled (initial_player ids)"
  by (simp add: settled_def initial_player_def list_all_iff new_item_def item_isPlaying_def)

lemma settled_toggles: "settled v \<Longrightarrow> settled (toggles ts v)"
  by (induction ts arbitrary: v) (simp_all add: settled_toggle)

lemma update_item_ids:
  assumes "\<And>it. item_id (f it) = item_id it"
  shows "map item_id (items (update_item i f v)) = map item_id (items v)"
proof (cases "i < length (items v)")
  case True
  have "map item_id ((items v)[i := f (items v ! i)]) = (map item_id (items v))[i := item_id (items v ! i)]"
    by (simp add: map_update assms)
  also have "\<dots> = map item_id (items v)"
    using True by (simp add: list_update_same_conv)
  finally show ?thesis using True by (simp add: update_item_def)
next
  case False
  then show ?thesis by (simp add: update_item_def)
qed

lemma run_effects_ids: "map item_id (items (run_effects v)) = map item_id (items v)"
  by (simp add: run_effects_def run_effect_def Let_def audio_pause_def)

lemma stopCurrentAudio_ids: "map item_id (items (stopCurrentAudio v)) = map item_id (items v)"
  by (simp add: stopCurrentAudio_def audio_pause_def)

lemma player_step_ids: "map item_id (items (player_step e v)) = map item_id (items v)"
proof (cases e)
  case (Click i)
  then show ?thesis
    by (simp add: run_effects_ids togglePlay_def Let_def update_item_ids stopCurrentAudio_ids
        audio_pause_def audio_play_def)
next
  case (DetailFetched i r)
  then show ?thesis
    by (cases r) (simp_all add: run_effects_ids togglePlay_fetched_def update_item_ids audio_play_def)
next
  case (PlaySettled i after_fetch started)
  then show ?thesis
    by (simp add: run_effects_ids togglePlay_played_def update_item_ids audio_pause_def)
next
  case (Ended i)
  then show ?thesis
    by (simp add: run_effects_ids handleEnded_def update_item_ids audio_pause_def)
qed

lemma toggle_to_end_ids: "map item_id (items (toggle_to_end i r started v)) = map item_id (items v)"
  by (simp add: toggle_to_end_def Let_def player_step_ids del: player_step.simps split: response.splits)

lemma toggles_ids: "map item_id (items (toggles ts v)) = map item_id (items v)"
  by (induction ts arbitrary: v) (simp_all add: toggle_to_end_ids)

lemma settled_single:
  assumes "settled v" "distinct (map item_id (items v))"
  shows "length (playing v) \<le> 1"
proof -
  have d: "distinct (playing v)"
    unfolding playing_def using assms(2) by (rule distinct_map_filter)
  have "set (playing v) \<subseteq> {x. currentlyPlaying v = Some x}"
    using assms(1)
    by (auto simp: playing_def settled_def list_all_iff item_isPlaying_def)
  also have "\<dots> \<subseteq> {the (currentlyPlaying v)}" by auto
  finally have "card (set (playing v)) \<le> card {the (currentlyPlaying v)}"
    by (intro card_mono) simp_all
  then show ?thesis using distinct_card[OF d] by simp
qed

text \<open>
  When every \<open>togglePlay\<close> runs to its end before the next click, at most one row of a
  list with distinct track ids is playing after any number of toggles.
\<close>

lemma toggles_single_playback:
  assumes "distinct ids"
  shows "length (playing (toggles ts (initial_player ids))) \<le> 1"
proof (rule settled_single)
  show "settled (toggles ts (initial_player ids))"
    by (rule settled_toggles) (rule settled_initial)
  have "map item_id (items (initial_player ids)) = ids"
    by (simp add: initial_player_def new_item_def comp_def)
  then show "distinct (map item_id (items (toggles ts (initial_player ids))))"
    using assms by (simp add: toggles_ids)
qed

subsection \<open>Toggles that overlap\<close>

text \<open>
  Claim C9. In every reachable state at most one audio source is playing, and a new
  source starts only after the one playing before has been paused. The code evaluates
  otherwise on two rows whose previews are not loaded yet: row A is clicked, row B is
  clicked before the detail response for A arrives, the response for A arrives and A
  plays, the response for B arrives and B plays. \<open>stopCurrentAudio\<close> ran at the two clicks,
  before anything played, so both rows are playing now; A is paused only by the effect
  that runs after \<open>play()\<close> of B has resolved and \<open>currentlyPlaying\<close> has moved to B.
\<close>

theorem C9_two_rows_playing:
  "currentlyPlaying (player_run two_rows_started (initial_player [''a'', ''b''])) = Some ''a'' \<and>
   playing (player_run two_rows_started (initial_player [''a'', ''b''])) = [''a'', ''b''] \<and>
   playing (player_run (two_rows_started @ [PlaySettled 1 True True]) (initial_player [''a'', ''b'']))
     = [''b'']"
  by code_simp

end

